theory Spec2Isabelle
  imports Main
begin

section \<open>Auto Bluetooth WiFi credential sharer: the embedding\<close>

text \<open>
  The program is the Python class \<open>AutoBluetoothWiFiSharer\<close> of
  \<open>auto_bluetooth_wifi_sharer.py\<close>. Its handlers mutate \<open>self.connected_devices\<close>,
  write files, launch external commands, sleep and log. The embedding threads one
  record through every call: the tracked set, the file system, and the list of effects
  in the order they happened. What the outside world answers (the exit status and output
  of a command, whether a file can be written) is a parameter \<open>E\<close> of every function
  that talks to it, so that every theorem holds for every answer.

  Strings are lists of 8-bit characters; a Python \<open>set\<close> is a HOL set; a Python
  \<open>dict\<close> with string keys is an association list read with \<open>map_of\<close>.
\<close>

subsection \<open>Exceptions\<close>

text \<open>
  The classes below all derive from Python's \<open>Exception\<close>. \<open>CalledProcessError\<close>
  carries the command and its return code, the others their message.
  \<open>KeyboardInterrupt\<close> and \<open>SystemExit\<close>, which are not errors and do not derive
  from \<open>Exception\<close>, are raised asynchronously and are outside this model.
\<close>

datatype exn =
    CalledProcessError "string list" int
  | OSError string
  | KeyError string
  | Exception string

fun is_CalledProcessError :: "exn \<Rightarrow> bool" where
  "is_CalledProcessError (CalledProcessError cmd rc) = True"
| "is_CalledProcessError _ = False"

text \<open>\<open>except Exception\<close> matches every class of the model.\<close>

fun is_Exception :: "exn \<Rightarrow> bool" where
  "is_Exception _ = True"

subsection \<open>Rendering values in messages\<close>

fun digits10 :: "nat \<Rightarrow> string" where
  "digits10 n =
     (if n < 10 then [''0123456789'' ! n]
      else digits10 (n div 10) @ [''0123456789'' ! (n mod 10)])"

definition str_int :: "int \<Rightarrow> string" where
  "str_int i = (if i < 0 then ''-'' @ digits10 (nat (- i)) else digits10 (nat i))"

fun join :: "string \<Rightarrow> string list \<Rightarrow> string" where
  "join sep [] = []"
| "join sep [x] = x"
| "join sep (x # y # ys) = x @ sep @ join sep (y # ys)"

text \<open>
  \<open>repr\<close> of a list of strings, for strings that hold no quote, backslash or control
  character (every command of the program is such a list of constants).
\<close>

definition repr_list :: "string list \<Rightarrow> string" where
  "repr_list xs = ''['' @ join '', '' (map (\<lambda>x. [CHR 0x27] @ x @ [CHR 0x27]) xs) @ '']''"

text \<open>
  \<open>str(e)\<close>. For a command killed by a signal (negative return code) Python prints
  the signal's name when it has one; the model prints its number.
\<close>

fun str_exn :: "exn \<Rightarrow> string" where
  "str_exn (CalledProcessError cmd rc) =
     (if rc < 0
      then ''Command '' @ [CHR 0x27] @ repr_list cmd @ [CHR 0x27]
             @ '' died with unknown signal '' @ str_int (- rc) @ ''.''
      else ''Command '' @ [CHR 0x27] @ repr_list cmd @ [CHR 0x27]
             @ '' returned non-zero exit status '' @ str_int rc @ ''.'')"
| "str_exn (OSError m) = m"
| "str_exn (KeyError m) = [CHR 0x27] @ m @ [CHR 0x27]"
| "str_exn (Exception m) = m"

subsection \<open>State and effects\<close>

type_synonym path = string

datatype level = INFO | ERROR

text \<open>
  One entry per effect. \<open>Truncate p\<close> is what \<open>open(p, 'w')\<close> does to the file,
  \<open>Store p d\<close> is the file's content becoming \<open>d\<close> (the buffered writes reaching the
  file when it is closed, or a copy made by \<open>cp\<close>).
\<close>

datatype event =
    Log level string
  | Sleep nat
  | Run "string list"
  | Truncate path
  | Store path string

record state =
  connected_devices :: "path set"
  fs :: "path \<rightharpoonup> string"
  trace :: "event list"

fun apply_fs :: "event \<Rightarrow> (path \<rightharpoonup> string) \<Rightarrow> (path \<rightharpoonup> string)" where
  "apply_fs (Truncate p) f = f(p \<mapsto> [])"
| "apply_fs (Store p d) f = f(p \<mapsto> d)"
| "apply_fs _ f = f"

definition emit :: "event \<Rightarrow> state \<Rightarrow> state" where
  "emit e s = s\<lparr>fs := apply_fs e (fs s), trace := trace s @ [e]\<rparr>"

text \<open>\<open>self.config_file\<close>, set once in \<open>__init__\<close>.\<close>

definition config_file :: path where
  "config_file = ''/etc/wifi_credentials.json''"

text \<open>The object as \<open>__init__\<close> leaves it, on a given file system.\<close>

definition init :: "(path \<rightharpoonup> string) \<Rightarrow> state" where
  "init f = \<lparr>connected_devices = {}, fs = f, trace = []\<rparr>"

subsection \<open>Computations that may raise\<close>

type_synonym 'a comp = "state \<Rightarrow> (exn + 'a) \<times> state"

definition return :: "'a \<Rightarrow> 'a comp" where
  "return x s = (Inr x, s)"

definition raise :: "exn \<Rightarrow> 'a comp" where
  "raise e s = (Inl e, s)"

definition bind :: "'a comp \<Rightarrow> ('a \<Rightarrow> 'b comp) \<Rightarrow> 'b comp" where
  "bind m k s = (case m s of (Inl e, s') \<Rightarrow> (Inl e, s') | (Inr x, s') \<Rightarrow> k x s')"

text \<open>
  A guarded block with one \<open>except C as e\<close> clause, where \<open>catches\<close> says which
  exceptions the clause matches. An exception the clause does not match propagates.
\<close>

definition try_except :: "'a comp \<Rightarrow> (exn \<Rightarrow> bool) \<Rightarrow> (exn \<Rightarrow> 'a comp) \<Rightarrow> 'a comp" where
  "try_except body catches handler s =
     (case body s of
        (Inl e, s') \<Rightarrow> if catches e then handler e s' else (Inl e, s')
      | (Inr x, s') \<Rightarrow> (Inr x, s'))"

definition logger_info :: "string \<Rightarrow> unit comp" where
  "logger_info msg s = (Inr (), emit (Log INFO msg) s)"

definition logger_error :: "string \<Rightarrow> unit comp" where
  "logger_error msg s = (Inr (), emit (Log ERROR msg) s)"

definition time_sleep :: "nat \<Rightarrow> unit comp" where
  "time_sleep n s = (Inr (), emit (Sleep n) s)"

subsection \<open>The outside world\<close>

text \<open>
  A command either cannot be launched (\<open>subprocess.run\<close> raises \<open>OSError\<close>) or
  completes with a return code and its standard output. Writing a file either fails at
  \<open>open\<close> (nothing changes), fails after \<open>open\<close> has truncated the file, with only
  the first \<open>n\<close> characters written, or succeeds.
\<close>

datatype proc_outcome = Spawn_fails string | Completed int string

datatype file_outcome = Open_fails string | Write_fails string nat | Write_ok

record env =
  run_outcome :: "string list \<Rightarrow> proc_outcome"
  write_outcome :: "path \<Rightarrow> file_outcome"

text \<open>
  What a completed command does to the files of the model: a successful
  \<open>sudo cp src dst\<close> copies the file; no other command of the program writes a file
  of the model.
\<close>

fun command_effect :: "string list \<Rightarrow> int \<Rightarrow> state \<Rightarrow> state" where
  "command_effect [a, b, src, dst] rc s =
     (if a = ''sudo'' \<and> b = ''cp'' \<and> rc = 0
      then (case fs s src of Some d \<Rightarrow> emit (Store dst d) s | None \<Rightarrow> s)
      else s)"
| "command_effect cmd rc s = s"

text \<open>\<open>subprocess.run(cmd, check=check, ...)\<close>; the value is the captured output.\<close>

definition subprocess_run :: "env \<Rightarrow> string list \<Rightarrow> bool \<Rightarrow> string comp" where
  "subprocess_run E cmd check s =
     (let s1 = emit (Run cmd) s in
      case run_outcome E cmd of
        Spawn_fails m \<Rightarrow> (Inl (OSError m), s1)
      | Completed rc out \<Rightarrow>
          if check \<and> rc \<noteq> 0
          then (Inl (CalledProcessError cmd rc), command_effect cmd rc s1)
          else (Inr out, command_effect cmd rc s1))"

text \<open>\<open>with open(p, 'w') as f: f.write(data)\<close>.\<close>

definition write_file :: "env \<Rightarrow> path \<Rightarrow> string \<Rightarrow> unit comp" where
  "write_file E p data s =
     (case write_outcome E p of
        Open_fails m \<Rightarrow> (Inl (OSError m), s)
      | Write_fails m n \<Rightarrow> (Inl (OSError m), emit (Store p (take n data)) (emit (Truncate p) s))
      | Write_ok \<Rightarrow> (Inr (), emit (Store p data) (emit (Truncate p) s)))"

subsection \<open>Strings, dictionaries and JSON\<close>

text \<open>\<open>needle in haystack\<close> on strings.\<close>

fun str_contains :: "string \<Rightarrow> string \<Rightarrow> bool" where
  "str_contains needle [] = (needle = [])"
| "str_contains needle (c # cs) =
     (take (length needle) (c # cs) = needle \<or> str_contains needle cs)"

text \<open>\<open>d.get(k)\<close> and the truth value of its result (\<open>None\<close> and \<open>''\<close> are false).\<close>

definition dict_get :: "(string \<times> string) list \<Rightarrow> string \<Rightarrow> string option" where
  "dict_get d k = map_of d k"

definition dict_get_default :: "(string \<times> string) list \<Rightarrow> string \<Rightarrow> string \<Rightarrow> string" where
  "dict_get_default d k dflt = (case map_of d k of Some v \<Rightarrow> v | None \<Rightarrow> dflt)"

fun truthy :: "string option \<Rightarrow> bool" where
  "truthy None = False"
| "truthy (Some v) = (v \<noteq> [])"

text \<open>
  \<open>json.dumps\<close> with its defaults (\<open>ensure_ascii\<close>, separators \<open>', '\<close> and
  \<open>': '\<close>) on a dictionary whose values are strings or booleans.
\<close>

datatype jval = JStr string | JBool bool

definition hex4 :: "nat \<Rightarrow> string" where
  "hex4 n = [''0123456789abcdef'' ! (n div 4096 mod 16), ''0123456789abcdef'' ! (n div 256 mod 16),
             ''0123456789abcdef'' ! (n div 16 mod 16), ''0123456789abcdef'' ! (n mod 16)]"

definition json_escape_char :: "char \<Rightarrow> string" where
  "json_escape_char c =
     (if c = CHR 0x22 then [CHR 0x5C, CHR 0x22]
      else if c = CHR 0x5C then [CHR 0x5C, CHR 0x5C]
      else if c = CHR 0x0A then [CHR 0x5C, CHR ''n'']
      else if c = CHR 0x0D then [CHR 0x5C, CHR ''r'']
      else if c = CHR 0x09 then [CHR 0x5C, CHR ''t'']
      else if c = CHR 0x08 then [CHR 0x5C, CHR ''b'']
      else if c = CHR 0x0C then [CHR 0x5C, CHR ''f'']
      else if (of_char c :: nat) < 32 \<or> 126 < (of_char c :: nat)
        then [CHR 0x5C, CHR ''u''] @ hex4 (of_char c)
      else [c])"

definition json_str :: "string \<Rightarrow> string" where
  "json_str s = [CHR 0x22] @ concat (map json_escape_char s) @ [CHR 0x22]"

fun json_val :: "jval \<Rightarrow> string" where
  "json_val (JStr s) = json_str s"
| "json_val (JBool b) = (if b then ''true'' else ''false'')"

definition json_dumps :: "(string \<times> jval) list \<Rightarrow> string" where
  "json_dumps d = ''{'' @ join '', '' (map (\<lambda>kv. json_str (fst kv) @ '': '' @ json_val (snd kv)) d) @ ''}''"

subsection \<open>connect\_to\_wifi (lines 261-310)\<close>

definition wpa_config :: "string \<Rightarrow> string \<Rightarrow> string" where
  "wpa_config ssid password =
     ''\<newline>ctrl_interface=/var/run/wpa_supplicant\<newline>ctrl_interface_group=0\<newline>update_config=1\<newline>\<newline>network={\<newline>    ssid=\"''
     @ ssid @ ''\"\<newline>    psk=\"'' @ password
     @ ''\"\<newline>    key_mgmt=WPA-PSK\<newline>    scan_ssid=1\<newline>}\<newline>''"

definition tmp_conf :: path where
  "tmp_conf = ''/tmp/wpa_supplicant.conf''"

definition cp_cmd :: "string list" where
  "cp_cmd = [''sudo'', ''cp'', tmp_conf, ''/etc/wpa_supplicant/wpa_supplicant.conf'']"

definition restart_cmd :: "string list" where
  "restart_cmd = [''sudo'', ''systemctl'', ''restart'', ''networking'']"

definition iwconfig_cmd :: "string list" where
  "iwconfig_cmd = [''iwconfig'', ''wlan0'']"

text \<open>The test applied to the output of \<open>iwconfig wlan0\<close> (line 295).\<close>

definition reports_connected :: "string \<Rightarrow> bool" where
  "reports_connected stdout =
     (str_contains ''ESSID:'' stdout \<and> \<not> str_contains ''off/any'' stdout)"

definition connect_to_wifi :: "env \<Rightarrow> string \<Rightarrow> string \<Rightarrow> bool comp" where
  "connect_to_wifi E ssid password =
     try_except
       (bind (write_file E tmp_conf (wpa_config ssid password)) (\<lambda>_.
        bind (subprocess_run E cp_cmd True) (\<lambda>_.
        bind (subprocess_run E restart_cmd True) (\<lambda>_.
        bind (time_sleep 10) (\<lambda>_.
        bind (subprocess_run E iwconfig_cmd False) (\<lambda>stdout.
          if reports_connected stdout
          then
            bind (logger_info (''Successfully connected to WiFi: '' @ ssid)) (\<lambda>_.
            bind (write_file E config_file
                    (json_dumps [(''ssid'', JStr ssid), (''password'', JStr password)])) (\<lambda>_.
            return True))
          else
            bind (logger_error ''Failed to connect to WiFi'') (\<lambda>_.
            return False)))))))
       is_CalledProcessError
       (\<lambda>e. bind (logger_error (''Error connecting to WiFi: '' @ str_exn e)) (\<lambda>_.
             return False))"

subsection \<open>simulate\_credential\_extraction (lines 234-259)\<close>

definition simulate_credential_extraction ::
    "path \<Rightarrow> string \<Rightarrow> (string \<times> string) list option comp" where
  "simulate_credential_extraction device_path device_name =
     try_except
       (bind (time_sleep 2) (\<lambda>_.
        bind (logger_info ''Credential extraction simulation complete'') (\<lambda>_.
        return None)))
       is_Exception
       (\<lambda>e. bind (logger_error (''Error in credential extraction simulation: '' @ str_exn e)) (\<lambda>_.
             return None))"

subsection \<open>extract\_wifi\_credentials (lines 197-232)\<close>

text \<open>
  The method calls \<open>self.simulate_credential_extraction\<close>. The body is written over
  the method that \<open>self\<close> provides, so that the branch taken for each possible
  extraction result can be stated; the program's own method is the instance below.
\<close>

definition credentials_ok :: "(string \<times> string) list option \<Rightarrow> bool" where
  "credentials_ok credentials =
     (case credentials of
        None \<Rightarrow> False
      | Some d \<Rightarrow> d \<noteq> [] \<and> truthy (dict_get d ''ssid'') \<and> truthy (dict_get d ''password''))"

definition extract_wifi_credentials_with ::
    "(path \<Rightarrow> string \<Rightarrow> (string \<times> string) list option comp) \<Rightarrow> env \<Rightarrow> path \<Rightarrow> string \<Rightarrow> bool comp" where
  "extract_wifi_credentials_with extraction E device_path device_name =
     try_except
       (bind (logger_info (''Attempting to extract WiFi credentials from '' @ device_name @ ''...'')) (\<lambda>_.
        bind (extraction device_path device_name) (\<lambda>credentials.
          if credentials_ok credentials
          then
            bind (logger_info (''WiFi credentials extracted from '' @ device_name @ ''!'')) (\<lambda>_.
            bind (logger_info (''Network: '' @ the (dict_get (the credentials) ''ssid''))) (\<lambda>_.
            bind (connect_to_wifi E (the (dict_get (the credentials) ''ssid''))
                                    (the (dict_get (the credentials) ''password''))) (\<lambda>connected.
              if connected
              then bind (logger_info ''Successfully connected to WiFi network!'') (\<lambda>_. return True)
              else bind (logger_error ''Failed to connect to WiFi network'') (\<lambda>_. return False))))
          else
            bind (logger_info (''No WiFi credentials found on '' @ device_name)) (\<lambda>_.
            return False))))
       is_Exception
       (\<lambda>e. bind (logger_error (''Error extracting WiFi credentials: '' @ str_exn e)) (\<lambda>_.
             return False))"

definition extract_wifi_credentials :: "env \<Rightarrow> path \<Rightarrow> string \<Rightarrow> bool comp" where
  "extract_wifi_credentials = extract_wifi_credentials_with simulate_credential_extraction"

subsection \<open>The signal handlers (lines 170-195)\<close>

text \<open>
  \<open>interfaces\<close> of \<open>InterfacesAdded\<close> maps an interface name to its properties;
  only the string properties \<open>Name\<close> and \<open>Address\<close> are read.
\<close>

type_synonym interfaces = "(string \<times> (string \<times> string) list) list"

definition set_add :: "path \<Rightarrow> unit comp" where
  "set_add p s = (Inr (), s\<lparr>connected_devices := insert p (connected_devices s)\<rparr>)"

text \<open>\<open>set.remove\<close> raises \<open>KeyError\<close> when the element is absent.\<close>

definition set_remove :: "path \<Rightarrow> unit comp" where
  "set_remove p s =
     (if p \<in> connected_devices s
      then (Inr (), s\<lparr>connected_devices := connected_devices s - {p}\<rparr>)
      else (Inl (KeyError p), s))"

definition on_device_connected_with ::
    "(path \<Rightarrow> string \<Rightarrow> (string \<times> string) list option comp) \<Rightarrow> env \<Rightarrow> path \<Rightarrow> interfaces \<Rightarrow> unit comp" where
  "on_device_connected_with extraction E p interfaces =
     try_except
       (case map_of interfaces ''org.bluez.Device1'' of
          Some device \<Rightarrow>
            bind (logger_info (''Device connected: '' @ dict_get_default device ''Name'' ''Unknown Device''
                     @ '' ('' @ dict_get_default device ''Address'' ''Unknown'' @ '')'')) (\<lambda>_.
            bind (set_add p) (\<lambda>_.
            bind (extract_wifi_credentials_with extraction E p
                    (dict_get_default device ''Name'' ''Unknown Device'')) (\<lambda>_.
            return ())))
        | None \<Rightarrow> return ())
       is_Exception
       (\<lambda>e. bind (logger_error (''Error handling device connection: '' @ str_exn e)) (\<lambda>_.
             return ()))"

definition on_device_connected :: "env \<Rightarrow> path \<Rightarrow> interfaces \<Rightarrow> unit comp" where
  "on_device_connected = on_device_connected_with simulate_credential_extraction"

definition on_device_disconnected :: "path \<Rightarrow> string list \<Rightarrow> unit comp" where
  "on_device_disconnected p interfaces =
     try_except
       (\<lambda>s. if p \<in> connected_devices s
            then bind (logger_info (''Device disconnected: '' @ p)) (\<lambda>_. set_remove p) s
            else return () s)
       is_Exception
       (\<lambda>e. bind (logger_error (''Error handling device disconnection: '' @ str_exn e)) (\<lambda>_.
             return ()))"

subsection \<open>The dispatch loop (lines 150-161, 345)\<close>

text \<open>
  \<open>setup_bluetooth_monitoring\<close> registers the two handlers for the signals
  \<open>InterfacesAdded\<close> and \<open>InterfacesRemoved\<close>, and \<open>self.mainloop.run()\<close>
  calls them, one signal after the other, each to completion. The loop is the library's;
  here it takes the signals that arrive, each with the outside world of its moment, and
  ends at the first exception a handler lets through.
\<close>

datatype signal = InterfacesAdded path interfaces | InterfacesRemoved path "string list"

fun deliver ::
    "(path \<Rightarrow> string \<Rightarrow> (string \<times> string) list option comp) \<Rightarrow> env \<Rightarrow> signal \<Rightarrow> unit comp" where
  "deliver extraction E (InterfacesAdded p interfaces) = on_device_connected_with extraction E p interfaces"
| "deliver extraction E (InterfacesRemoved p interfaces) = on_device_disconnected p interfaces"

fun mainloop_run ::
    "(path \<Rightarrow> string \<Rightarrow> (string \<times> string) list option comp) \<Rightarrow> (env \<times> signal) list \<Rightarrow> unit comp" where
  "mainloop_run extraction [] = return ()"
| "mainloop_run extraction (x # rest) =
     bind (deliver extraction (fst x) (snd x)) (\<lambda>_. mainloop_run extraction rest)"

subsection \<open>Observing a run\<close>

text \<open>The effects a computation added when it took \<open>s\<close> to \<open>s'\<close>.\<close>

definition new_events :: "state \<Rightarrow> state \<Rightarrow> event list" where
  "new_events s s' = drop (length (trace s)) (trace s')"

text \<open>
  The file system after each effect, starting with the one before the first: what a
  reader running between two effects finds.
\<close>

fun fs_history :: "(path \<rightharpoonup> string) \<Rightarrow> event list \<Rightarrow> (path \<rightharpoonup> string) list" where
  "fs_history f [] = [f]"
| "fs_history f (e # es) = f # fs_history (apply_fs e f) es"

definition store_views :: "state \<Rightarrow> state \<Rightarrow> string option list" where
  "store_views s s' = map (\<lambda>f. f config_file) (fs_history (fs s) (new_events s s'))"

fun touches :: "path \<Rightarrow> event \<Rightarrow> bool" where
  "touches p (Truncate q) = (q = p)"
| "touches p (Store q d) = (q = p)"
| "touches p _ = False"


text \<open>
  An outside world given by its five answers to \<open>connect_to_wifi\<close>: writing the
  temporary file, \<open>cp\<close>, the restart, \<open>iwconfig\<close>, writing the store.
\<close>

definition env_of ::
    "file_outcome \<Rightarrow> proc_outcome \<Rightarrow> proc_outcome \<Rightarrow> proc_outcome \<Rightarrow> file_outcome \<Rightarrow> env" where
  "env_of tmp cp restart iw store =
     \<lparr>run_outcome = (\<lambda>cmd. if cmd = cp_cmd then cp else if cmd = restart_cmd then restart else iw),
      write_outcome = (\<lambda>p. if p = config_file then store else tmp)\<rparr>"

subsection \<open>Concrete outside worlds\<close>

text \<open>
  The message of the \<open>FileNotFoundError\<close> (an \<open>OSError\<close>) that
  \<open>subprocess.run\<close> raises for a program that is not installed.
\<close>

definition no_such_file :: "string \<Rightarrow> string" where
  "no_such_file name = ''[Errno 2] No such file or directory: '' @ [CHR 0x27] @ name @ [CHR 0x27]"

definition env_no_iwconfig :: env where
  "env_no_iwconfig = env_of Write_ok (Completed 0 []) (Completed 0 [])
      (Spawn_fails (no_such_file ''iwconfig'')) Write_ok"



definition old_store :: "path \<rightharpoonup> string" where
  "old_store = [config_file \<mapsto> ''{\"ssid\": \"OldNet\", \"password\": \"oldpass99\"}'']"

text \<open>An outside world where every step succeeds and the interface is associated.\<close>

definition env_connected :: env where
  "env_connected = env_of Write_ok (Completed 0 []) (Completed 0 [])
      (Completed 0 ''wlan0     IEEE 802.11  ESSID:\"HomeNet\"  '') Write_ok"


subsection \<open>Concrete peers and extraction methods\<close>

text \<open>
  Extraction methods standing for what a replacement of the program's stub may do: hand
  back a given payload, or fail with a given exception.
\<close>

definition extraction_returning ::
    "(string \<times> string) list option \<Rightarrow> path \<Rightarrow> string \<Rightarrow> (string \<times> string) list option comp" where
  "extraction_returning c device_path device_name = return c"

definition extraction_raising ::
    "exn \<Rightarrow> path \<Rightarrow> string \<Rightarrow> (string \<times> string) list option comp" where
  "extraction_raising e device_path device_name = raise e"

text \<open>The first effect of \<open>extract_wifi_credentials\<close> (line 200).\<close>

definition attempting :: "string \<Rightarrow> event" where
  "attempting n = Log INFO (''Attempting to extract WiFi credentials from '' @ n @ ''...'')"

text \<open>The effects that reach outside the process: commands and file writes.\<close>

fun external :: "event \<Rightarrow> bool" where
  "external (Log l m) = False"
| "external (Sleep n) = False"
| "external _ = True"

definition phone :: path where
  "phone = ''/org/bluez/hci0/dev_AA_BB_CC_DD_EE_FF''"

definition phone_interfaces :: interfaces where
  "phone_interfaces = [(''org.bluez.Device1'', [(''Name'', ''Phone''), (''Address'', ''AA:BB:CC:DD:EE:FF'')])]"

definition home_credentials :: "(string \<times> string) list" where
  "home_credentials = [(''ssid'', ''HomeNet''), (''password'', ''s3cret123'')]"

definition ssid_only :: "(string \<times> string) list" where
  "ssid_only = [(''ssid'', ''HomeNet'')]"

definition two_phones :: state where
  "two_phones = \<lparr>connected_devices = {phone, ''/org/bluez/hci0/dev_11_22_33_44_55_66''},
                 fs = Map.empty, trace = []\<rparr>"

section \<open>Basic facts\<close>


lemmas comp_defs = return_def raise_def bind_def try_except_def logger_info_def logger_error_def
  time_sleep_def subprocess_run_def write_file_def

lemma cmd_effects [simp]:
  "command_effect restart_cmd rc s = s" "command_effect iwconfig_cmd rc s = s"
  by (simp_all add: restart_cmd_def iwconfig_cmd_def)

lemma fs_emit [simp]: "fs (emit e s) = apply_fs e (fs s)"
  and trace_emit [simp]: "trace (emit e s) = trace s @ [e]"
  and cd_emit [simp]: "connected_devices (emit e s) = connected_devices s"
  by (simp_all add: emit_def)

lemma config_file_neq [simp]:
  "config_file \<noteq> tmp_conf" "tmp_conf \<noteq> config_file"
  "config_file \<noteq> ''/etc/wpa_supplicant/wpa_supplicant.conf''"
  "''/etc/wpa_supplicant/wpa_supplicant.conf'' \<noteq> config_file"
  by (simp_all add: config_file_def tmp_conf_def)

lemma cp_effect [simp]:
  "fs s tmp_conf = Some d \<Longrightarrow>
   command_effect cp_cmd 0 s = emit (Store ''/etc/wpa_supplicant/wpa_supplicant.conf'' d) s"
  "rc \<noteq> 0 \<Longrightarrow> command_effect cp_cmd rc s = s"
  by (simp_all add: cp_cmd_def)

lemma cmds_distinct [simp]:
  "cp_cmd \<noteq> restart_cmd" "cp_cmd \<noteq> iwconfig_cmd" "restart_cmd \<noteq> iwconfig_cmd"
  "restart_cmd \<noteq> cp_cmd" "iwconfig_cmd \<noteq> cp_cmd" "iwconfig_cmd \<noteq> restart_cmd"
  by (simp_all add: cp_cmd_def restart_cmd_def iwconfig_cmd_def)

lemma env_of_simps [simp]:
  "run_outcome (env_of tmp cp restart iw store) cp_cmd = cp"
  "run_outcome (env_of tmp cp restart iw store) restart_cmd = restart"
  "run_outcome (env_of tmp cp restart iw store) iwconfig_cmd = iw"
  "write_outcome (env_of tmp cp restart iw store) tmp_conf = tmp"
  "write_outcome (env_of tmp cp restart iw store) config_file = store"
  by (simp_all add: env_of_def)

lemmas ctw_defs = connect_to_wifi_def comp_defs Let_def




lemma ctw_iw_spawn:
  "write_outcome E tmp_conf = Write_ok \<Longrightarrow> run_outcome E cp_cmd = Completed 0 out \<Longrightarrow>
   run_outcome E restart_cmd = Completed 0 out' \<Longrightarrow>
   run_outcome E iwconfig_cmd = Spawn_fails m \<Longrightarrow>
   fst (connect_to_wifi E ssid pw s) = Inl (OSError m) \<and>
   fs (snd (connect_to_wifi E ssid pw s)) config_file = fs s config_file"
  by (simp add: ctw_defs)


lemma ctw_success:
  assumes "fst (connect_to_wifi E ssid pw s) = Inr True"
  shows "write_outcome E tmp_conf = Write_ok \<and>
         (\<exists>out. run_outcome E cp_cmd = Completed 0 out) \<and>
         (\<exists>out. run_outcome E restart_cmd = Completed 0 out) \<and>
         (\<exists>rc out. run_outcome E iwconfig_cmd = Completed rc out \<and> reports_connected out) \<and>
         write_outcome E config_file = Write_ok"
  using assms
  by (auto simp add: ctw_defs
       split: proc_outcome.splits file_outcome.splits if_splits sum.splits prod.splits)

lemma ctw_success_state:
  assumes "write_outcome E tmp_conf = Write_ok" "run_outcome E cp_cmd = Completed 0 out"
    "run_outcome E restart_cmd = Completed 0 out'"
    "run_outcome E iwconfig_cmd = Completed rc out''" "reports_connected out''"
    "write_outcome E config_file = Write_ok"
  shows "connect_to_wifi E ssid pw s =
    (Inr True, s\<lparr>fs := (fs s)(tmp_conf \<mapsto> wpa_config ssid pw,
                      ''/etc/wpa_supplicant/wpa_supplicant.conf'' \<mapsto> wpa_config ssid pw,
                      config_file \<mapsto> json_dumps [(''ssid'', JStr ssid), (''password'', JStr pw)]),
        trace := trace s @ [Truncate tmp_conf, Store tmp_conf (wpa_config ssid pw), Run cp_cmd,
           Store ''/etc/wpa_supplicant/wpa_supplicant.conf'' (wpa_config ssid pw), Run restart_cmd,
           Sleep 10, Run iwconfig_cmd, Log INFO (''Successfully connected to WiFi: '' @ ssid),
           Truncate config_file,
           Store config_file (json_dumps [(''ssid'', JStr ssid), (''password'', JStr pw)])]\<rparr>)"
  using assms
  by (simp add: ctw_defs emit_def)

lemma simulate_result:
  "simulate_credential_extraction p n s =
     (Inr None, emit (Log INFO ''Credential extraction simulation complete'') (emit (Sleep 2) s))"
  by (simp add: simulate_credential_extraction_def comp_defs)

lemma extract_invalid:
  assumes "extraction p n (emit (Log INFO (''Attempting to extract WiFi credentials from '' @ n @ ''...'')) s) = (Inr c, s2)"
    and "\<not> credentials_ok c"
  shows "extract_wifi_credentials_with extraction E p n s =
           (Inr False, emit (Log INFO (''No WiFi credentials found on '' @ n)) s2)"
  using assms by (simp add: extract_wifi_credentials_with_def comp_defs)

lemma extract_raises:
  assumes "extraction p n (emit (Log INFO (''Attempting to extract WiFi credentials from '' @ n @ ''...'')) s) = (Inl e, s2)"
  shows "extract_wifi_credentials_with extraction E p n s =
           (Inr False, emit (Log ERROR (''Error extracting WiFi credentials: '' @ str_exn e)) s2)"
  using assms by (simp add: extract_wifi_credentials_with_def comp_defs)

lemma extract_valid:
  assumes "extraction p n (emit (Log INFO (''Attempting to extract WiFi credentials from '' @ n @ ''...'')) s) = (Inr (Some d), s2)"
    and "credentials_ok (Some d)"
  shows "extract_wifi_credentials_with extraction E p n s =
           (case connect_to_wifi E (the (dict_get d ''ssid'')) (the (dict_get d ''password''))
                   (emit (Log INFO (''Network: '' @ the (dict_get d ''ssid'')))
                     (emit (Log INFO (''WiFi credentials extracted from '' @ n @ ''!'')) s2)) of
              (Inr True, s3) \<Rightarrow> (Inr True, emit (Log INFO ''Successfully connected to WiFi network!'') s3)
            | (Inr False, s3) \<Rightarrow> (Inr False, emit (Log ERROR ''Failed to connect to WiFi network'') s3)
            | (Inl e, s3) \<Rightarrow> (Inr False, emit (Log ERROR (''Error extracting WiFi credentials: '' @ str_exn e)) s3))"
  using assms
  by (simp add: extract_wifi_credentials_with_def comp_defs split: prod.splits sum.splits bool.splits)

lemma credentials_ok_iff:
  "credentials_ok c \<longleftrightarrow>
     (\<exists>d ssid pw. c = Some d \<and> map_of d ''ssid'' = Some ssid \<and> ssid \<noteq> [] \<and>
                  map_of d ''password'' = Some pw \<and> pw \<noteq> [])"
proof (cases c)
  case None then show ?thesis by (simp add: credentials_ok_def)
next
  case (Some d)
  show ?thesis
  proof (cases "map_of d ''ssid''")
    case None with Some show ?thesis by (simp add: credentials_ok_def dict_get_def)
  next
    case s: (Some a)
    show ?thesis
    proof (cases "map_of d ''password''")
      case None with Some s show ?thesis by (simp add: credentials_ok_def dict_get_def)
    next
      case p: (Some b)
      have "d \<noteq> []" using s by auto
      with Some s p show ?thesis by (simp add: credentials_ok_def dict_get_def)
    qed
  qed
qed

lemma extract_returns: "\<exists>b. fst (extract_wifi_credentials_with extraction E p n s) = Inr b"
proof -
  let ?s1 = "emit (Log INFO (''Attempting to extract WiFi credentials from '' @ n @ ''...'')) s"
  obtain r s2 where r: "extraction p n ?s1 = (r, s2)" by (cases "extraction p n ?s1")
  show ?thesis
  proof (cases r)
    case (Inl e)
    with r extract_raises [of extraction p n s e s2 E] show ?thesis by auto
  next
    case (Inr c)
    show ?thesis
    proof (cases "credentials_ok c")
      case False
      with r Inr extract_invalid [of extraction p n s c s2 E] show ?thesis by auto
    next
      case True
      then obtain d where d: "c = Some d" by (cases c) (simp_all add: credentials_ok_def)
      with r Inr True extract_valid [of extraction p n s d s2 E]
      show ?thesis by (auto split: prod.splits sum.splits bool.splits)
    qed
  qed
qed

lemma odc_returns: "fst (on_device_connected_with extraction E p i s) = Inr ()"
proof (cases "map_of i ''org.bluez.Device1''")
  case None
  then show ?thesis by (simp add: on_device_connected_with_def return_def try_except_def)
next
  case (Some device)
  let ?n = "dict_get_default device ''Name'' ''Unknown Device''"
  let ?s1 = "snd (set_add p (snd (logger_info (''Device connected: '' @ ?n
                 @ '' ('' @ dict_get_default device ''Address'' ''Unknown'' @ '')'') s)))"
  obtain b where "fst (extract_wifi_credentials_with extraction E p ?n ?s1) = Inr b"
    using extract_returns by blast
  with Some show ?thesis
    by (auto simp add: on_device_connected_with_def return_def bind_def try_except_def
          logger_info_def logger_error_def set_add_def split: prod.splits sum.splits)
qed

lemma odd_absent: "p \<notin> connected_devices s \<Longrightarrow> on_device_disconnected p i s = (Inr (), s)"
  by (simp add: on_device_disconnected_def comp_defs)

lemma odd_present:
  "p \<in> connected_devices s \<Longrightarrow>
   on_device_disconnected p i s =
     (Inr (), s\<lparr>connected_devices := connected_devices s - {p},
                trace := trace s @ [Log INFO (''Device disconnected: '' @ p)]\<rparr>)"
  by (simp add: on_device_disconnected_def comp_defs set_remove_def emit_def)

lemma extract_own:
  "extract_wifi_credentials E p n s =
     (Inr False, s\<lparr>trace := trace s @
        [Log INFO (''Attempting to extract WiFi credentials from '' @ n @ ''...''), Sleep 2,
         Log INFO ''Credential extraction simulation complete'',
         Log INFO (''No WiFi credentials found on '' @ n)]\<rparr>)"
  by (simp add: extract_wifi_credentials_def extract_invalid [OF simulate_result] credentials_ok_def emit_def)

lemma odc_own_device:
  "map_of i ''org.bluez.Device1'' = Some device \<Longrightarrow>
   on_device_connected E p i s =
     (Inr (), s\<lparr>connected_devices := insert p (connected_devices s),
        trace := trace s @
        [Log INFO (''Device connected: '' @ dict_get_default device ''Name'' ''Unknown Device''
                     @ '' ('' @ dict_get_default device ''Address'' ''Unknown'' @ '')''),
         Log INFO (''Attempting to extract WiFi credentials from ''
                     @ dict_get_default device ''Name'' ''Unknown Device'' @ ''...''), Sleep 2,
         Log INFO ''Credential extraction simulation complete'',
         Log INFO (''No WiFi credentials found on '' @ dict_get_default device ''Name'' ''Unknown Device'')]\<rparr>)"
  using extract_own [unfolded extract_wifi_credentials_def]
  by (simp add: on_device_connected_def on_device_connected_with_def comp_defs set_add_def emit_def)

lemma odc_own_other:
  "map_of i ''org.bluez.Device1'' = None \<Longrightarrow> on_device_connected E p i s = (Inr (), s)"
  by (simp add: on_device_connected_def on_device_connected_with_def comp_defs)

lemma associated_output: "reports_connected ''wlan0     IEEE 802.11  ESSID:\"HomeNet\"  ''"
  by (simp add: reports_connected_def)

lemma json_homenet:
  "json_dumps [(''ssid'', JStr ''HomeNet''), (''password'', JStr ''s3cret123'')]
     = ''{\"ssid\": \"HomeNet\", \"password\": \"s3cret123\"}''"
  by code_simp

lemma new_events_append [simp]: "trace s' = trace s @ evs \<Longrightarrow> new_events s s' = evs"
  by (simp add: new_events_def)

lemma ctw_connected:
  "connect_to_wifi env_connected ssid pw s =
    (Inr True, s\<lparr>fs := (fs s)(tmp_conf \<mapsto> wpa_config ssid pw,
                      ''/etc/wpa_supplicant/wpa_supplicant.conf'' \<mapsto> wpa_config ssid pw,
                      config_file \<mapsto> json_dumps [(''ssid'', JStr ssid), (''password'', JStr pw)]),
        trace := trace s @ [Truncate tmp_conf, Store tmp_conf (wpa_config ssid pw), Run cp_cmd,
           Store ''/etc/wpa_supplicant/wpa_supplicant.conf'' (wpa_config ssid pw), Run restart_cmd,
           Sleep 10, Run iwconfig_cmd, Log INFO (''Successfully connected to WiFi: '' @ ssid),
           Truncate config_file,
           Store config_file (json_dumps [(''ssid'', JStr ssid), (''password'', JStr pw)])]\<rparr>)"
  by (rule ctw_success_state [where out = "[]" and out' = "[]" and rc = 0
        and out'' = "''wlan0     IEEE 802.11  ESSID:\"HomeNet\"  ''"])
     (simp_all add: env_connected_def associated_output)

lemma store_views_success:
  assumes "fst (connect_to_wifi E ssid pw s) = Inr True"
  shows "store_views s (snd (connect_to_wifi E ssid pw s)) =
           replicate 9 (fs s config_file) @
           [Some [], Some (json_dumps [(''ssid'', JStr ssid), (''password'', JStr pw)])]"
    and "filter (touches config_file) (new_events s (snd (connect_to_wifi E ssid pw s))) =
           [Truncate config_file,
            Store config_file (json_dumps [(''ssid'', JStr ssid), (''password'', JStr pw)])]"
    and "fs (snd (connect_to_wifi E ssid pw s)) config_file =
           Some (json_dumps [(''ssid'', JStr ssid), (''password'', JStr pw)])"
proof -
  from ctw_success [OF assms] obtain out out' rc out'' where
    c: "write_outcome E tmp_conf = Write_ok" "run_outcome E cp_cmd = Completed 0 out"
      "run_outcome E restart_cmd = Completed 0 out'"
      "run_outcome E iwconfig_cmd = Completed rc out''" "reports_connected out''"
      "write_outcome E config_file = Write_ok"
    by blast
  note st = ctw_success_state [OF c, of ssid pw s]
  show "store_views s (snd (connect_to_wifi E ssid pw s)) =
           replicate 9 (fs s config_file) @
           [Some [], Some (json_dumps [(''ssid'', JStr ssid), (''password'', JStr pw)])]"
    by (simp add: st store_views_def eval_nat_numeral)
  show "filter (touches config_file) (new_events s (snd (connect_to_wifi E ssid pw s))) =
           [Truncate config_file,
            Store config_file (json_dumps [(''ssid'', JStr ssid), (''password'', JStr pw)])]"
    by (simp add: st)
  show "fs (snd (connect_to_wifi E ssid pw s)) config_file =
           Some (json_dumps [(''ssid'', JStr ssid), (''password'', JStr pw)])"
    by (simp add: st)
qed



lemma odd_returns: "fst (on_device_disconnected p j s) = Inr ()"
  by (cases "p \<in> connected_devices s") (simp_all add: odd_absent odd_present)

lemma home_credentials_ok: "credentials_ok (Some home_credentials)"
  by (simp add: credentials_ok_def home_credentials_def dict_get_def)

lemma home_credentials_get:
  "the (dict_get home_credentials ''ssid'') = ''HomeNet''"
  "the (dict_get home_credentials ''password'') = ''s3cret123''"
  by (simp_all add: home_credentials_def dict_get_def)

lemma ctw_no_iwconfig:
  "fst (connect_to_wifi env_no_iwconfig ssid pw s) = Inl (OSError (no_such_file ''iwconfig''))"
  using ctw_iw_spawn [where E = env_no_iwconfig and out = "[]" and out' = "[]"
          and m = "no_such_file ''iwconfig''" and ssid = ssid and pw = pw and s = s]
  by (simp add: env_no_iwconfig_def)


lemma deliver_returns: "fst (deliver extraction E sg s) = Inr ()"
  by (cases sg) (simp_all add: odc_returns odd_returns)

lemma mainloop_returns: "fst (mainloop_run extraction sigs s) = Inr ()"
proof (induction sigs arbitrary: s)
  case Nil
  show ?case by (simp add: return_def)
next
  case (Cons x rest)
  obtain s' where "deliver extraction (fst x) (snd x) s = (Inr (), s')"
    using deliver_returns [of extraction "fst x" "snd x" s]
    by (cases "deliver extraction (fst x) (snd x) s") simp
  then show ?case using Cons.IH [of s'] by (simp add: bind_def)
qed

lemma deliver_own_quiet:
  "fs (snd (deliver simulate_credential_extraction E sg s)) = fs s \<and>
   (\<exists>evs. trace (snd (deliver simulate_credential_extraction E sg s)) = trace s @ evs
          \<and> filter external evs = [])"
proof (cases sg)
  case (InterfacesAdded p i)
  show ?thesis
  proof (cases "map_of i ''org.bluez.Device1''")
    case None
    with InterfacesAdded show ?thesis
      using odc_own_other [of i E p s] by (simp add: on_device_connected_def)
  next
    case (Some device)
    with InterfacesAdded show ?thesis
      using odc_own_device [of i device E p s] by (simp add: on_device_connected_def)
  qed
next
  case (InterfacesRemoved p j)
  then show ?thesis
    by (cases "p \<in> connected_devices s") (simp_all add: odd_absent odd_present)
qed

lemma mainloop_own_quiet:
  "fs (snd (mainloop_run simulate_credential_extraction sigs s)) = fs s \<and>
   (\<exists>evs. trace (snd (mainloop_run simulate_credential_extraction sigs s)) = trace s @ evs
          \<and> filter external evs = [])"
proof (induction sigs arbitrary: s)
  case Nil
  show ?case by (simp add: return_def)
next
  case (Cons x rest)
  obtain s' where d: "deliver simulate_credential_extraction (fst x) (snd x) s = (Inr (), s')"
    using deliver_returns [of simulate_credential_extraction "fst x" "snd x" s]
    by (cases "deliver simulate_credential_extraction (fst x) (snd x) s") simp
  from deliver_own_quiet [of "fst x" "snd x" s] d
  obtain evs where 1: "fs s' = fs s" "trace s' = trace s @ evs" "filter external evs = []"
    by auto
  from Cons.IH [of s'] obtain evs' where
    2: "fs (snd (mainloop_run simulate_credential_extraction rest s')) = fs s'"
       "trace (snd (mainloop_run simulate_credential_extraction rest s')) = trace s' @ evs'"
       "filter external evs' = []"
    by auto
  have "trace (snd (mainloop_run simulate_credential_extraction rest s')) = trace s @ (evs @ evs')"
    using 1 2 by simp
  moreover have "filter external (evs @ evs') = []" using 1 2 by simp
  ultimately show ?case using d 1 2 by (simp add: bind_def)
qed

section \<open>C1: a failed attempt leaves the credential store alone\<close>




section \<open>C2: how the credential store is replaced\<close>




section \<open>C3: a failed extraction is not retried\<close>

text \<open>
  As stated, C3 says that a failed exchange is repeated until three attempts were made.
  On a connect event the program extracts once: the trace holds one extraction (one
  \<open>Sleep 2\<close>), then the line saying that nothing was found, and the result is
  \<open>False\<close>.
\<close>

theorem extract_retry_counterexample:
  "extract_wifi_credentials env_connected phone ''Phone'' (init Map.empty) =
     (Inr False,
      \<lparr>connected_devices = {}, fs = Map.empty,
       trace = [Log INFO ''Attempting to extract WiFi credentials from Phone...'', Sleep 2,
                Log INFO ''Credential extraction simulation complete'',
                Log INFO ''No WiFi credentials found on Phone'']\<rparr>)"
  by (simp add: extract_own init_def)

text \<open>
  C3, amended. When the extraction hands back a payload that is absent, empty or lacks
  a non-empty \<open>ssid\<close> or \<open>password\<close>, \<open>extract_wifi_credentials\<close> returns
  \<open>False\<close> after that single extraction: its only further effect is one log line.
  There is no attempts counter, no further request and no backoff.
\<close>

theorem extract_single_attempt:
  "extraction p n (emit (Log INFO (''Attempting to extract WiFi credentials from '' @ n @ ''...'')) s)
       = (Inr c, s2) \<Longrightarrow>
   \<not> credentials_ok c \<Longrightarrow>
   fst (extract_wifi_credentials_with extraction E p n s) = Inr False \<and>
   new_events s2 (snd (extract_wifi_credentials_with extraction E p n s)) =
     [Log INFO (''No WiFi credentials found on '' @ n)]"
  using extract_invalid [of extraction p n s c s2 E] by simp

theorem extract_single_attempt_witness:
  "\<not> credentials_ok (Some []) \<and>
   extract_wifi_credentials_with (extraction_returning (Some [])) env_connected phone ''Phone''
       (init Map.empty) =
     (Inr False,
      \<lparr>connected_devices = {}, fs = Map.empty,
       trace = [Log INFO ''Attempting to extract WiFi credentials from Phone...'',
                Log INFO ''No WiFi credentials found on Phone'']\<rparr>)"
proof -
  let ?s1 = "emit (Log INFO (''Attempting to extract WiFi credentials from '' @ ''Phone'' @ ''...'')) (init Map.empty)"
  have a: "extraction_returning (Some []) phone ''Phone'' ?s1 = (Inr (Some []), ?s1)"
    by (simp add: extraction_returning_def return_def)
  have b: "\<not> credentials_ok (Some [])" by (simp add: credentials_ok_def)
  from extract_single_attempt [where extraction = "extraction_returning (Some [])" and p = phone
      and n = "''Phone''" and s = "init Map.empty" and c = "Some []" and ?s2.0 = ?s1
      and E = env_connected] a b
  have "fst (extract_wifi_credentials_with (extraction_returning (Some [])) env_connected phone ''Phone''
       (init Map.empty)) = Inr False" by simp
  moreover have "snd (extract_wifi_credentials_with (extraction_returning (Some [])) env_connected phone ''Phone''
       (init Map.empty)) = \<lparr>connected_devices = {}, fs = Map.empty,
       trace = [Log INFO ''Attempting to extract WiFi credentials from Phone...'',
                Log INFO ''No WiFi credentials found on Phone'']\<rparr>"
    using extract_invalid [where extraction = "extraction_returning (Some [])" and p = phone
      and n = "''Phone''" and s = "init Map.empty" and c = "Some []" and ?s2.0 = ?s1
      and E = env_connected] a b by (simp add: init_def emit_def)
  ultimately show ?thesis using b by (simp add: prod_eq_iff)
qed

section \<open>C4: verification is one check after a fixed wait\<close>




section \<open>C5: the record that is stored\<close>

text \<open>
  As stated, C5 says that the stored record is
  \<open>{networkName: "HomeNet", secret: "s3cret123", verified: true}\<close>. The program dumps
  the dictionary \<open>{'ssid': ssid, 'password': password}\<close> (line 299): two keys, under
  other names, and no \<open>verified\<close> marker.
\<close>

theorem stored_record_counterexample:
  "fs (snd (connect_to_wifi env_connected ''HomeNet'' ''s3cret123'' (init Map.empty))) config_file
     = Some ''{\"ssid\": \"HomeNet\", \"password\": \"s3cret123\"}''
   \<and> fs (snd (connect_to_wifi env_connected ''HomeNet'' ''s3cret123'' (init Map.empty))) config_file
     \<noteq> Some (json_dumps [(''networkName'', JStr ''HomeNet''), (''secret'', JStr ''s3cret123''),
                          (''verified'', JBool True)])"
proof -
  have "json_dumps [(''networkName'', JStr ''HomeNet''), (''secret'', JStr ''s3cret123''),
                          (''verified'', JBool True)]
        = ''{\"networkName\": \"HomeNet\", \"secret\": \"s3cret123\", \"verified\": true}''"
    by code_simp
  then show ?thesis by (simp add: ctw_connected json_homenet)
qed

text \<open>
  C5, amended. When \<open>connect_to_wifi\<close> returns \<open>True\<close>, the store file holds
  exactly the JSON text of \<open>{"ssid": ssid, "password": password}\<close> with the submitted
  values; for \<open>HomeNet\<close> and \<open>s3cret123\<close> it is
  \<open>{"ssid": "HomeNet", "password": "s3cret123"}\<close>.
\<close>

theorem stored_record_is_ssid_password:
  "fst (connect_to_wifi E ssid password s) = Inr True \<Longrightarrow>
     fs (snd (connect_to_wifi E ssid password s)) config_file =
       Some (json_dumps [(''ssid'', JStr ssid), (''password'', JStr password)])"
  by (rule store_views_success(3))

theorem stored_record_is_ssid_password_witness:
  "fst (connect_to_wifi env_connected ''HomeNet'' ''s3cret123'' (init Map.empty)) = Inr True
   \<and> fs (snd (connect_to_wifi env_connected ''HomeNet'' ''s3cret123'' (init Map.empty))) config_file
       = Some ''{\"ssid\": \"HomeNet\", \"password\": \"s3cret123\"}''"
  using stored_record_is_ssid_password [of env_connected "''HomeNet''" "''s3cret123''" "init Map.empty"]
  by (simp add: ctw_connected json_homenet)

section \<open>C6: one tracked entry per peer\<close>

text \<open>
  C6. \<open>connected_devices\<close> is a set. After a connect event for a path \<open>p\<close> that
  carries \<open>org.bluez.Device1\<close>, \<open>p\<close> is tracked and the handler has returned; a
  second connect event for \<open>p\<close>, whatever it carries, leaves the set as it is; and
  the effects of the second handling all come after those of the first, which are a
  prefix of the trace: the two never overlap.
\<close>

theorem connect_event_tracked_once:
  "map_of i1 ''org.bluez.Device1'' = Some d1 \<Longrightarrow>
   fst (on_device_connected E1 p i1 s) = Inr ()
   \<and> p \<in> connected_devices (snd (on_device_connected E1 p i1 s))
   \<and> connected_devices (snd (on_device_connected E2 p i2 (snd (on_device_connected E1 p i1 s))))
       = connected_devices (snd (on_device_connected E1 p i1 s))
   \<and> take (length (trace (snd (on_device_connected E1 p i1 s))))
          (trace (snd (on_device_connected E2 p i2 (snd (on_device_connected E1 p i1 s)))))
       = trace (snd (on_device_connected E1 p i1 s))"
proof -
  assume d1: "map_of i1 ''org.bluez.Device1'' = Some d1"
  let ?s1 = "snd (on_device_connected E1 p i1 s)"
  have s1: "p \<in> connected_devices ?s1" "fst (on_device_connected E1 p i1 s) = Inr ()"
    by (simp_all add: odc_own_device [OF d1])
  have "connected_devices (snd (on_device_connected E2 p i2 ?s1)) = connected_devices ?s1
        \<and> take (length (trace ?s1)) (trace (snd (on_device_connected E2 p i2 ?s1))) = trace ?s1"
  proof (cases "map_of i2 ''org.bluez.Device1''")
    case None
    then show ?thesis by (simp add: odc_own_other)
  next
    case (Some d2)
    with s1 show ?thesis by (simp add: odc_own_device [OF Some] insert_absorb)
  qed
  with s1 show ?thesis by simp
qed

theorem connect_event_tracked_once_witness:
  "connected_devices (snd (on_device_connected env_connected phone phone_interfaces (init Map.empty)))
     = {phone}
   \<and> connected_devices (snd (on_device_connected env_connected phone phone_interfaces
         (snd (on_device_connected env_connected phone phone_interfaces (init Map.empty)))))
     = {phone}"
proof -
  have d: "map_of phone_interfaces ''org.bluez.Device1''
             = Some [(''Name'', ''Phone''), (''Address'', ''AA:BB:CC:DD:EE:FF'')]"
    by (simp add: phone_interfaces_def)
  have a: "connected_devices (snd (on_device_connected env_connected phone phone_interfaces (init Map.empty)))
     = {phone}"
    by (simp add: odc_own_device [OF d] init_def)
  from connect_event_tracked_once [OF d, where ?E1.0 = env_connected and p = phone
      and s = "init Map.empty" and ?E2.0 = env_connected and ?i2.0 = phone_interfaces] a
  show ?thesis by simp
qed

section \<open>C7: no error leaves a handler\<close>

text \<open>
  C7. For every extraction method, outside world, path, name, interfaces and state,
  \<open>extract_wifi_credentials\<close>, \<open>on_device_connected\<close> and
  \<open>on_device_disconnected\<close> return a value and never an exception, so the dispatch
  loop delivers every signal of any sequence and ends without one. When the
  extraction raises \<open>e\<close>, or \<open>connect_to_wifi\<close> raises \<open>e\<close> on valid
  credentials, \<open>extract_wifi_credentials\<close> logs \<open>e\<close> at level \<open>ERROR\<close> and
  returns \<open>False\<close>.
\<close>

theorem handlers_never_raise:
  "(\<exists>b. fst (extract_wifi_credentials_with extraction E p n s) = Inr b)
   \<and> fst (on_device_connected_with extraction E p i s) = Inr ()
   \<and> fst (on_device_disconnected p j s) = Inr ()
   \<and> fst (mainloop_run extraction sigs s) = Inr ()
   \<and> (extraction p n (emit (attempting n) s) = (Inl e, s2) \<longrightarrow>
        extract_wifi_credentials_with extraction E p n s =
          (Inr False, emit (Log ERROR (''Error extracting WiFi credentials: '' @ str_exn e)) s2))
   \<and> (extraction p n (emit (attempting n) s) = (Inr (Some d), s2) \<and> credentials_ok (Some d) \<and>
        connect_to_wifi E (the (dict_get d ''ssid'')) (the (dict_get d ''password''))
          (emit (Log INFO (''Network: '' @ the (dict_get d ''ssid'')))
             (emit (Log INFO (''WiFi credentials extracted from '' @ n @ ''!'')) s2)) = (Inl e, s3) \<longrightarrow>
        extract_wifi_credentials_with extraction E p n s =
          (Inr False, emit (Log ERROR (''Error extracting WiFi credentials: '' @ str_exn e)) s3))"
proof (intro conjI impI)
  show "\<exists>b. fst (extract_wifi_credentials_with extraction E p n s) = Inr b"
    by (rule extract_returns)
  show "fst (on_device_connected_with extraction E p i s) = Inr ()"
    by (rule odc_returns)
  show "fst (on_device_disconnected p j s) = Inr ()"
    by (rule odd_returns)
  show "fst (mainloop_run extraction sigs s) = Inr ()"
    by (rule mainloop_returns)
next
  assume "extraction p n (emit (attempting n) s) = (Inl e, s2)"
  then show "extract_wifi_credentials_with extraction E p n s =
          (Inr False, emit (Log ERROR (''Error extracting WiFi credentials: '' @ str_exn e)) s2)"
    unfolding attempting_def
    by (rule extract_raises [where extraction = extraction and p = p and n = n and s = s])
next
  assume a: "extraction p n (emit (attempting n) s) = (Inr (Some d), s2) \<and> credentials_ok (Some d) \<and>
        connect_to_wifi E (the (dict_get d ''ssid'')) (the (dict_get d ''password''))
          (emit (Log INFO (''Network: '' @ the (dict_get d ''ssid'')))
             (emit (Log INFO (''WiFi credentials extracted from '' @ n @ ''!'')) s2)) = (Inl e, s3)"
  then have x: "extraction p n (emit (Log INFO (''Attempting to extract WiFi credentials from '' @ n @ ''...'')) s) = (Inr (Some d), s2)"
    and ok: "credentials_ok (Some d)"
    by (simp_all add: attempting_def)
  from a show "extract_wifi_credentials_with extraction E p n s =
          (Inr False, emit (Log ERROR (''Error extracting WiFi credentials: '' @ str_exn e)) s3)"
    unfolding extract_valid [where extraction = extraction and p = p and n = n and s = s
        and d = d and ?s2.0 = s2 and E = E, OF x ok] by simp
qed

theorem handlers_never_raise_witness:
  "fst (extract_wifi_credentials_with (extraction_raising (Exception ''link lost'')) env_connected
          phone ''Phone'' (init Map.empty)) = Inr False
   \<and> fst (extract_wifi_credentials_with (extraction_returning (Some home_credentials)) env_no_iwconfig
          phone ''Phone'' (init Map.empty)) = Inr False
   \<and> fst (on_device_connected_with (extraction_raising (Exception ''link lost'')) env_connected
          phone phone_interfaces (init Map.empty)) = Inr ()"
proof -
  let ?s1 = "emit (attempting ''Phone'') (init Map.empty)"
  let ?s3 = "emit (Log INFO (''Network: '' @ ''HomeNet''))
             (emit (Log INFO (''WiFi credentials extracted from '' @ ''Phone'' @ ''!'')) ?s1)"
  obtain s4 where s4: "connect_to_wifi env_no_iwconfig ''HomeNet'' ''s3cret123'' ?s3
      = (Inl (OSError (no_such_file ''iwconfig'')), s4)"
    using ctw_no_iwconfig [of "''HomeNet''" "''s3cret123''" ?s3]
    by (cases "connect_to_wifi env_no_iwconfig ''HomeNet'' ''s3cret123'' ?s3") simp
  have a: "extraction_raising (Exception ''link lost'') phone ''Phone'' ?s1
             = (Inl (Exception ''link lost''), ?s1)"
    by (simp add: extraction_raising_def raise_def)
  have b: "extraction_returning (Some home_credentials) phone ''Phone'' ?s1
             = (Inr (Some home_credentials), ?s1)"
    by (simp add: extraction_returning_def return_def)
  from handlers_never_raise [where extraction = "extraction_raising (Exception ''link lost'')"
      and E = env_connected and p = phone and n = "''Phone''" and s = "init Map.empty"
      and i = phone_interfaces and e = "Exception ''link lost''" and ?s2.0 = ?s1] a
  have 1: "fst (extract_wifi_credentials_with (extraction_raising (Exception ''link lost'')) env_connected
          phone ''Phone'' (init Map.empty)) = Inr False"
    and 3: "fst (on_device_connected_with (extraction_raising (Exception ''link lost'')) env_connected
          phone phone_interfaces (init Map.empty)) = Inr ()"
    by simp_all
  from handlers_never_raise [where extraction = "extraction_returning (Some home_credentials)"
      and E = env_no_iwconfig and p = phone and n = "''Phone''" and s = "init Map.empty"
      and d = home_credentials and e = "OSError (no_such_file ''iwconfig'')" and ?s2.0 = ?s1
      and ?s3.0 = s4] b s4 home_credentials_ok
  have 2: "fst (extract_wifi_credentials_with (extraction_returning (Some home_credentials)) env_no_iwconfig
          phone ''Phone'' (init Map.empty)) = Inr False"
    by (simp add: home_credentials_get)
  from 1 2 3 show ?thesis by simp
qed

section \<open>C8: credentials are checked before they are applied\<close>

text \<open>
  C8. Let the extraction hand back \<open>c\<close>. The test of line 215 holds exactly when
  \<open>c\<close> is a dictionary with a non-empty \<open>ssid\<close> and a non-empty \<open>password\<close>.
  When it fails, \<open>extract_wifi_credentials\<close> returns \<open>False\<close> and the state is the
  one the extraction left plus one log line: \<open>connect_to_wifi\<close> was not run. When it
  holds, the result is that of \<open>connect_to_wifi\<close> on those two values.
\<close>

theorem credentials_validated_before_connect:
  "extraction p n (emit (attempting n) s) = (Inr c, s2) \<Longrightarrow>
   (credentials_ok c \<longleftrightarrow>
      (\<exists>d ssid pw. c = Some d \<and> map_of d ''ssid'' = Some ssid \<and> ssid \<noteq> [] \<and>
                   map_of d ''password'' = Some pw \<and> pw \<noteq> []))
   \<and> (\<not> credentials_ok c \<longrightarrow>
        extract_wifi_credentials_with extraction E p n s =
          (Inr False, emit (Log INFO (''No WiFi credentials found on '' @ n)) s2))
   \<and> (credentials_ok c \<longrightarrow>
        extract_wifi_credentials_with extraction E p n s =
          (case connect_to_wifi E (the (map_of (the c) ''ssid'')) (the (map_of (the c) ''password''))
                  (emit (Log INFO (''Network: '' @ the (map_of (the c) ''ssid'')))
                    (emit (Log INFO (''WiFi credentials extracted from '' @ n @ ''!'')) s2)) of
             (Inr True, s3) \<Rightarrow> (Inr True, emit (Log INFO ''Successfully connected to WiFi network!'') s3)
           | (Inr False, s3) \<Rightarrow> (Inr False, emit (Log ERROR ''Failed to connect to WiFi network'') s3)
           | (Inl e, s3) \<Rightarrow>
               (Inr False, emit (Log ERROR (''Error extracting WiFi credentials: '' @ str_exn e)) s3)))"
proof (intro conjI impI)
  assume x: "extraction p n (emit (attempting n) s) = (Inr c, s2)"
  show "credentials_ok c \<longleftrightarrow>
      (\<exists>d ssid pw. c = Some d \<and> map_of d ''ssid'' = Some ssid \<and> ssid \<noteq> [] \<and>
                   map_of d ''password'' = Some pw \<and> pw \<noteq> [])"
    by (rule credentials_ok_iff)
  {
    assume "\<not> credentials_ok c"
    with x show "extract_wifi_credentials_with extraction E p n s =
          (Inr False, emit (Log INFO (''No WiFi credentials found on '' @ n)) s2)"
      unfolding attempting_def
      by (rule extract_invalid [where extraction = extraction and p = p and n = n and s = s])
  }
  {
    assume ok: "credentials_ok c"
    then obtain d where d: "c = Some d" by (cases c) (simp_all add: credentials_ok_def)
    from x d have x': "extraction p n (emit (Log INFO (''Attempting to extract WiFi credentials from '' @ n @ ''...'')) s) = (Inr (Some d), s2)"
      by (simp add: attempting_def)
    from ok d have ok': "credentials_ok (Some d)" by simp
    show "extract_wifi_credentials_with extraction E p n s =
          (case connect_to_wifi E (the (map_of (the c) ''ssid'')) (the (map_of (the c) ''password''))
                  (emit (Log INFO (''Network: '' @ the (map_of (the c) ''ssid'')))
                    (emit (Log INFO (''WiFi credentials extracted from '' @ n @ ''!'')) s2)) of
             (Inr True, s3) \<Rightarrow> (Inr True, emit (Log INFO ''Successfully connected to WiFi network!'') s3)
           | (Inr False, s3) \<Rightarrow> (Inr False, emit (Log ERROR ''Failed to connect to WiFi network'') s3)
           | (Inl e, s3) \<Rightarrow>
               (Inr False, emit (Log ERROR (''Error extracting WiFi credentials: '' @ str_exn e)) s3))"
      unfolding extract_valid [where extraction = extraction and p = p and n = n and s = s
        and d = d and ?s2.0 = s2 and E = E, OF x' ok'] d
      by (simp add: dict_get_def)
  }
qed

theorem credentials_validated_before_connect_witness:
  "\<not> credentials_ok (Some ssid_only)
   \<and> extract_wifi_credentials_with (extraction_returning (Some ssid_only)) env_connected
        phone ''Phone'' (init Map.empty) =
       (Inr False,
        emit (Log INFO ''No WiFi credentials found on Phone'')
          (emit (attempting ''Phone'') (init Map.empty)))
   \<and> credentials_ok (Some home_credentials)
   \<and> fst (extract_wifi_credentials_with (extraction_returning (Some home_credentials)) env_connected
        phone ''Phone'' (init Map.empty)) = Inr True
   \<and> fs (snd (extract_wifi_credentials_with (extraction_returning (Some home_credentials)) env_connected
        phone ''Phone'' (init Map.empty))) config_file
       = Some ''{\"ssid\": \"HomeNet\", \"password\": \"s3cret123\"}''"
proof -
  let ?s1 = "emit (attempting ''Phone'') (init Map.empty)"
  have a: "extraction_returning (Some ssid_only) phone ''Phone'' ?s1 = (Inr (Some ssid_only), ?s1)"
    by (simp add: extraction_returning_def return_def)
  have b: "extraction_returning (Some home_credentials) phone ''Phone'' ?s1
             = (Inr (Some home_credentials), ?s1)"
    by (simp add: extraction_returning_def return_def)
  have na: "\<not> credentials_ok (Some ssid_only)"
    by (simp add: credentials_ok_def ssid_only_def dict_get_def)
  have g: "the (map_of home_credentials ''ssid'') = ''HomeNet''"
    "the (map_of home_credentials ''password'') = ''s3cret123''"
    by (simp_all add: home_credentials_def)
  from credentials_validated_before_connect [where extraction = "extraction_returning (Some ssid_only)"
      and p = phone and n = "''Phone''" and s = "init Map.empty" and c = "Some ssid_only"
      and ?s2.0 = ?s1 and E = env_connected, OF a] na
  have 1: "extract_wifi_credentials_with (extraction_returning (Some ssid_only)) env_connected
        phone ''Phone'' (init Map.empty) =
       (Inr False, emit (Log INFO ''No WiFi credentials found on Phone'') ?s1)"
    by simp
  from credentials_validated_before_connect [where extraction = "extraction_returning (Some home_credentials)"
      and p = phone and n = "''Phone''" and s = "init Map.empty" and c = "Some home_credentials"
      and ?s2.0 = ?s1 and E = env_connected, OF b] home_credentials_ok
  have 2: "fst (extract_wifi_credentials_with (extraction_returning (Some home_credentials)) env_connected
        phone ''Phone'' (init Map.empty)) = Inr True"
    and 3: "fs (snd (extract_wifi_credentials_with (extraction_returning (Some home_credentials)) env_connected
        phone ''Phone'' (init Map.empty))) config_file
       = Some ''{\"ssid\": \"HomeNet\", \"password\": \"s3cret123\"}''"
    by (simp_all add: g ctw_connected json_homenet)
  from na 1 home_credentials_ok 2 3 show ?thesis by simp
qed

section \<open>C9: the simulated extraction finds nothing\<close>

text \<open>
  C9. \<open>simulate_credential_extraction\<close> returns \<open>None\<close> for every path and
  name. So \<open>extract_wifi_credentials\<close> returns \<open>False\<close>, and neither it nor
  \<open>on_device_connected\<close> runs a command or writes a file: the file system, and the
  credential store in it, is unchanged by every connect event, and by every sequence of
  signals the dispatch loop delivers.
\<close>

theorem simulation_finds_nothing:
  "fst (simulate_credential_extraction p n s) = Inr None
   \<and> fst (extract_wifi_credentials E p n s) = Inr False
   \<and> fs (snd (extract_wifi_credentials E p n s)) = fs s
   \<and> filter external (new_events s (snd (extract_wifi_credentials E p n s))) = []
   \<and> fst (on_device_connected E p i s) = Inr ()
   \<and> fs (snd (on_device_connected E p i s)) = fs s
   \<and> filter external (new_events s (snd (on_device_connected E p i s))) = []
   \<and> fs (snd (mainloop_run simulate_credential_extraction sigs s)) = fs s
   \<and> filter external (new_events s (snd (mainloop_run simulate_credential_extraction sigs s))) = []"
proof -
  from mainloop_own_quiet [of sigs s]
  have loop: "fs (snd (mainloop_run simulate_credential_extraction sigs s)) = fs s
     \<and> filter external (new_events s (snd (mainloop_run simulate_credential_extraction sigs s))) = []"
    by auto
  have "fs (snd (on_device_connected E p i s)) = fs s
        \<and> filter external (new_events s (snd (on_device_connected E p i s))) = []
        \<and> fst (on_device_connected E p i s) = Inr ()"
  proof (cases "map_of i ''org.bluez.Device1''")
    case None
    then show ?thesis by (simp add: odc_own_other new_events_def)
  next
    case (Some device)
    show ?thesis by (simp add: odc_own_device [OF Some])
  qed
  with loop show ?thesis by (simp add: simulate_result extract_own)
qed

theorem simulation_finds_nothing_witness:
  "fst (simulate_credential_extraction phone ''Phone'' (init old_store)) = Inr None
   \<and> fst (extract_wifi_credentials env_connected phone ''Phone'' (init old_store)) = Inr False
   \<and> fs (snd (on_device_connected env_connected phone phone_interfaces (init old_store))) config_file
       = Some ''{\"ssid\": \"OldNet\", \"password\": \"oldpass99\"}''"
  using simulation_finds_nothing [where p = phone and n = "''Phone''" and s = "init old_store"
          and E = env_connected and i = phone_interfaces]
  by (simp add: init_def old_store_def)

section \<open>C10: disconnecting twice is disconnecting once\<close>

text \<open>
  C10. If the path is not tracked, \<open>on_device_disconnected\<close> returns with the state
  unchanged. If it is tracked, the handler returns with that one path removed from the
  set and one line logged, the files unchanged. Delivering the same event again
  changes nothing.
\<close>

theorem disconnect_idempotent:
  "(p \<notin> connected_devices s \<longrightarrow> on_device_disconnected p j s = (Inr (), s))
   \<and> (p \<in> connected_devices s \<longrightarrow>
        on_device_disconnected p j s =
          (Inr (), s\<lparr>connected_devices := connected_devices s - {p},
                     trace := trace s @ [Log INFO (''Device disconnected: '' @ p)]\<rparr>))
   \<and> on_device_disconnected p j' (snd (on_device_disconnected p j s))
        = (Inr (), snd (on_device_disconnected p j s))"
proof (intro conjI impI)
  show "p \<notin> connected_devices s \<Longrightarrow> on_device_disconnected p j s = (Inr (), s)"
    by (rule odd_absent)
  show "p \<in> connected_devices s \<Longrightarrow> on_device_disconnected p j s =
          (Inr (), s\<lparr>connected_devices := connected_devices s - {p},
                     trace := trace s @ [Log INFO (''Device disconnected: '' @ p)]\<rparr>)"
    by (rule odd_present)
  have "p \<notin> connected_devices (snd (on_device_disconnected p j s))"
    by (cases "p \<in> connected_devices s") (simp_all add: odd_absent odd_present)
  then show "on_device_disconnected p j' (snd (on_device_disconnected p j s))
        = (Inr (), snd (on_device_disconnected p j s))"
    by (rule odd_absent)
qed

theorem disconnect_idempotent_witness:
  "phone \<in> connected_devices two_phones
   \<and> on_device_disconnected phone [''org.bluez.Device1''] two_phones =
       (Inr (), \<lparr>connected_devices = {''/org/bluez/hci0/dev_11_22_33_44_55_66''}, fs = Map.empty,
                 trace = [Log INFO (''Device disconnected: '' @ phone)]\<rparr>)
   \<and> phone \<notin> connected_devices (init Map.empty)
   \<and> on_device_disconnected phone [''org.bluez.Device1''] (init Map.empty) = (Inr (), init Map.empty)"
  using disconnect_idempotent [of phone two_phones "[''org.bluez.Device1'']"]
    disconnect_idempotent [of phone "init Map.empty" "[''org.bluez.Device1'']"]
  by (auto simp add: two_phones_def init_def phone_def)

end
